theory Spec2Isabelle
  imports Complex_Main "HOL-Library.Multiset" "HOL-Library.List_Lexorder" "HOL-Library.Char_ord"
begin

section \<open>Data model of the active-customers chart\<close>

text \<open>
  The definitions follow \<^verbatim>\<open>ActiveCustomersChart\<close> (the second document of
  \<^verbatim>\<open>src/components/dashboard/CohortAnalysisDashboard.tsx\<close>, lines 471-618).
  A TypeScript \<^verbatim>\<open>number\<close> that holds a count is an \<^typ>\<open>int\<close>: staff counts are
  produced by \<^verbatim>\<open>Math.floor\<close>, thresholds by \<^verbatim>\<open>parseInt(..) || 0\<close>. The score, the one
  quotient of the program, is a \<^typ>\<open>real\<close>; rounding of the IEEE quotient is not modelled.
\<close>

datatype Operator = OpBetween | OpGt | OpGte | OpLt | OpLte | OpEq

record StaffFilter =
  operator :: Operator
  value1 :: int
  value2 :: "int option"

record Filters =
  startDate :: string
  endDate :: string
  professions :: "string list"
  countries :: "string list"
  memberships :: "string list"
  staffFilter :: StaffFilter

record Customer =
  appointyId :: string
  userName :: string
  businessName :: string
  profession :: string
  country :: string
  membership :: string
  staffCount :: int
  monthlyAppointmentCount :: int
  validTill :: string

record ChartDataPoint =
  category :: string
  appointments :: int
  accounts :: int
  bayesianNormal :: real
  customers :: "Customer list"

datatype ViewMode = Profession | Membership | Country

section \<open>Filter engine\<close>

text \<open>
  \<^verbatim>\<open>applyStaffFilter\<close>, lines 512-531. \<^verbatim>\<open>value2 !== undefined\<close> is the test for
  \<^term>\<open>Some\<close>. The \<^verbatim>\<open>default\<close> branch of the switch is unreachable for the six
  operators the type admits.
\<close>

fun applyStaffFilter :: "int \<Rightarrow> StaffFilter \<Rightarrow> bool" where
  "applyStaffFilter staff flt =
     (case operator flt of
        OpGte \<Rightarrow> staff \<ge> value1 flt
      | OpGt \<Rightarrow> staff > value1 flt
      | OpLte \<Rightarrow> staff \<le> value1 flt
      | OpLt \<Rightarrow> staff < value1 flt
      | OpEq \<Rightarrow> staff = value1 flt
      | OpBetween \<Rightarrow>
          (case value2 flt of
             Some v2 \<Rightarrow> staff \<ge> value1 flt \<and> staff \<le> v2
           | None \<Rightarrow> staff \<ge> value1 flt))"

text \<open>\<^verbatim>\<open>Array.prototype.includes\<close> on an array of strings.\<close>

definition array_includes :: "string list \<Rightarrow> string \<Rightarrow> bool" where
  "array_includes xs x = (x \<in> set xs)"

text \<open>
  \<^verbatim>\<open>generateMockData\<close>, lines 534-563. The source draws each of its 150 customers from
  \<^verbatim>\<open>Math.random\<close>; the drawn customers are the list the loop walks here, in the order of
  the loop counter. Each of the four guards ends the iteration (\<^verbatim>\<open>continue\<close>); a
  customer that passes all of them is pushed at the end of the result.
\<close>

fun generateMockData_loop :: "Filters \<Rightarrow> Customer list \<Rightarrow> Customer list \<Rightarrow> Customer list" where
  "generateMockData_loop filters [] pushed = pushed"
| "generateMockData_loop filters (customer # rest) pushed =
     (if length (professions filters) > 0 \<and> \<not> array_includes (professions filters) (profession customer)
        then generateMockData_loop filters rest pushed
      else if length (countries filters) > 0 \<and> \<not> array_includes (countries filters) (country customer)
        then generateMockData_loop filters rest pushed
      else if length (memberships filters) > 0 \<and> \<not> array_includes (memberships filters) (membership customer)
        then generateMockData_loop filters rest pushed
      else if \<not> applyStaffFilter (staffCount customer) (staffFilter filters)
        then generateMockData_loop filters rest pushed
      else generateMockData_loop filters rest (pushed @ [customer]))"

definition generateMockData :: "Customer list \<Rightarrow> Filters \<Rightarrow> Customer list" where
  "generateMockData drawn filters = generateMockData_loop filters drawn []"

section \<open>Aggregator\<close>

text \<open>
  \<^verbatim>\<open>calculateBayesianNormal\<close>, lines 566-571: the prior is added once to the
  appointments, the prior count to the accounts.
\<close>

definition calculateBayesianNormal :: "int \<Rightarrow> int \<Rightarrow> real" where
  "calculateBayesianNormal appts accts =
     (let prior = 20; priorCount = 5
      in (of_int appts + prior) / (of_int accts + priorCount))"

text \<open>
  \<^verbatim>\<open>d3.group\<close> is the grouping function of the d3-array library the component imports.
  It walks the values once and keeps a \<^verbatim>\<open>Map\<close> from key to array: a value whose key is
  already present is pushed onto that key's array, a new key is set with a one-element
  array. A \<^verbatim>\<open>Map\<close> iterates in the order its keys were first set, so the map is an
  association list here, new keys at the end.
\<close>

fun group_push :: "'k \<Rightarrow> 'a \<Rightarrow> ('k \<times> 'a list) list \<Rightarrow> ('k \<times> 'a list) list" where
  "group_push key v [] = [(key, [v])]"
| "group_push key v ((k, grp) # groups) =
     (if k = key then (k, grp @ [v]) # groups else (k, grp) # group_push key v groups)"

definition d3_group :: "'a list \<Rightarrow> ('a \<Rightarrow> 'k) \<Rightarrow> ('k \<times> 'a list) list" where
  "d3_group vals keyof = foldl (\<lambda>groups v. group_push (keyof v) v groups) [] vals"

text \<open>
  \<^verbatim>\<open>Array.prototype.sort\<close> with a comparator: \<^verbatim>\<open>a\<close> is placed before \<^verbatim>\<open>b\<close> when
  the comparator is negative, and elements that compare equal keep their order (the sort
  is stable since ECMAScript 2019). Insertion from the right end of the array, each element
  in front of the first one it does not exceed, computes that order.
\<close>

fun insort_cmp :: "('a \<Rightarrow> 'a \<Rightarrow> int) \<Rightarrow> 'a \<Rightarrow> 'a list \<Rightarrow> 'a list" where
  "insort_cmp cmp x [] = [x]"
| "insort_cmp cmp x (y # ys) = (if cmp x y \<le> 0 then x # y # ys else y # insort_cmp cmp x ys)"

definition array_sort :: "('a \<Rightarrow> 'a \<Rightarrow> int) \<Rightarrow> 'a list \<Rightarrow> 'a list" where
  "array_sort cmp xs = foldr (insort_cmp cmp) xs []"

text \<open>
  \<^verbatim>\<open>chartData\<close>, lines 593-618: the key selector of the view mode, the row built
  from one entry of the grouping, and the memoised computation itself with its early
  return on an empty customer array.
\<close>

fun viewKey :: "ViewMode \<Rightarrow> Customer \<Rightarrow> string" where
  "viewKey Profession d = profession d"
| "viewKey Membership d = membership d"
| "viewKey Country d = country d"

definition chartRow :: "string \<times> Customer list \<Rightarrow> ChartDataPoint" where
  "chartRow entry =
     (case entry of (cat, customerList) \<Rightarrow>
        let appts = foldl (\<lambda>sum c. sum + monthlyAppointmentCount c) 0 customerList;
            accts = int (length customerList);
            bayes = calculateBayesianNormal appts accts
        in \<lparr>category = cat, appointments = appts, accounts = accts,
            bayesianNormal = bayes, customers = customerList\<rparr>)"

definition chartData :: "ViewMode \<Rightarrow> Customer list \<Rightarrow> ChartDataPoint list" where
  "chartData viewMode custs =
     (if length custs = 0 then []
      else array_sort (\<lambda>a b. accounts b - accounts a)
             (map chartRow (d3_group custs (viewKey viewMode))))"

subsection \<open>Reading the rows\<close>

text \<open>The scalar fields of a row: category, member count, summed volume, score.\<close>

definition row_summary :: "ChartDataPoint \<Rightarrow> string \<times> int \<times> int \<times> real" where
  "row_summary r = (category r, accounts r, appointments r, bayesianNormal r)"

text \<open>
  The scalar fields of the row of category \<^term>\<open>k\<close>, read off the multiset of the
  records alone.
\<close>

definition summary_of :: "ViewMode \<Rightarrow> Customer multiset \<Rightarrow> string \<Rightarrow> string \<times> int \<times> int \<times> real" where
  "summary_of vm M k =
     (let G = filter_mset (\<lambda>c. viewKey vm c = k) M;
          a = sum_mset (image_mset monthlyAppointmentCount G);
          n = int (size G)
      in (k, n, a, calculateBayesianNormal a n))"

text \<open>The distinct elements of a list in the order of their first occurrence.\<close>

fun first_occurrences :: "'a list \<Rightarrow> 'a list" where
  "first_occurrences [] = []"
| "first_occurrences (x # xs) = x # filter (\<lambda>y. y \<noteq> x) (first_occurrences xs)"

text \<open>
  The row order the specification states in section 4.3: descending member count, ties
  by ascending category label.
\<close>

definition spec_row_before :: "ChartDataPoint \<Rightarrow> ChartDataPoint \<Rightarrow> bool" where
  "spec_row_before a b =
     (accounts a > accounts b \<or> (accounts a = accounts b \<and> category a \<le> category b))"

text \<open>
  The score the specification states in section 4.3, with its constants
  \<^verbatim>\<open>priorMean = 20\<close> and \<^verbatim>\<open>priorWeight = 5\<close>.
\<close>

definition spec_smoothedScore :: "int \<Rightarrow> int \<Rightarrow> real" where
  "spec_smoothedScore volumeSum memberCount =
     (of_int volumeSum + 20 * 5) / (of_int memberCount + 5)"

subsection \<open>The filter as the specification words it\<close>

text \<open>
  Section 4.2 of the specification: a categorical dimension restricts only when its
  inclusion set is non-empty; the numeric filter compares under the selected operator,
  a \<^verbatim>\<open>between\<close> without its second threshold being unbounded above.
\<close>

definition spec_dimension_ok :: "string list \<Rightarrow> string \<Rightarrow> bool" where
  "spec_dimension_ok inclusion v = (inclusion = [] \<or> v \<in> set inclusion)"

fun spec_numeric_ok :: "Operator \<Rightarrow> int \<Rightarrow> int option \<Rightarrow> int \<Rightarrow> bool" where
  "spec_numeric_ok OpEq t1 t2 v = (v = t1)"
| "spec_numeric_ok OpGt t1 t2 v = (v > t1)"
| "spec_numeric_ok OpGte t1 t2 v = (v \<ge> t1)"
| "spec_numeric_ok OpLt t1 t2 v = (v < t1)"
| "spec_numeric_ok OpLte t1 t2 v = (v \<le> t1)"
| "spec_numeric_ok OpBetween t1 (Some t2) v = (t1 \<le> v \<and> v \<le> t2)"
| "spec_numeric_ok OpBetween t1 None v = (t1 \<le> v)"

definition spec_retained :: "Filters \<Rightarrow> Customer \<Rightarrow> bool" where
  "spec_retained f c =
     (spec_dimension_ok (professions f) (profession c) \<and>
      spec_dimension_ok (countries f) (country c) \<and>
      spec_dimension_ok (memberships f) (membership c) \<and>
      spec_numeric_ok (operator (staffFilter f)) (value1 (staffFilter f)) (value2 (staffFilter f))
        (staffCount c))"

subsection \<open>Example inputs\<close>

definition doctor5 :: Customer where
  "doctor5 = \<lparr>appointyId = ''APT0001'', userName = ''User 1'', businessName = ''Business 1'',
     profession = ''Doctor'', country = ''USA'', membership = ''Basic'',
     staffCount = 5, monthlyAppointmentCount = 40, validTill = ''2026-01-01''\<rparr>"

definition doctor15 :: Customer where
  "doctor15 = \<lparr>appointyId = ''APT0002'', userName = ''User 2'', businessName = ''Business 2'',
     profession = ''Doctor'', country = ''UK'', membership = ''Pro'',
     staffCount = 15, monthlyAppointmentCount = 60, validTill = ''2026-02-01''\<rparr>"

definition nurse8 :: Customer where
  "nurse8 = \<lparr>appointyId = ''APT0003'', userName = ''User 3'', businessName = ''Business 3'',
     profession = ''Nurse'', country = ''USA'', membership = ''Basic'',
     staffCount = 8, monthlyAppointmentCount = 30, validTill = ''2026-03-01''\<rparr>"

definition doctorWith :: "string \<Rightarrow> int \<Rightarrow> Customer" where
  "doctorWith ident volume = doctor5\<lparr>appointyId := ident, monthlyAppointmentCount := volume\<rparr>"

definition fiveDoctors :: "Customer list" where
  "fiveDoctors = [doctorWith ''APT0011'' 10, doctorWith ''APT0012'' 15, doctorWith ''APT0013'' 20,
     doctorWith ''APT0014'' 25, doctorWith ''APT0015'' 30]"

definition noRestriction :: Filters where
  "noRestriction = \<lparr>startDate = ''2025-01-01'', endDate = ''2025-12-31'',
     professions = [], countries = [], memberships = [],
     staffFilter = \<lparr>operator = OpGte, value1 = 0, value2 = None\<rparr>\<rparr>"

definition doctorsOnly :: Filters where
  "doctorsOnly = noRestriction\<lparr>professions := [''Doctor'']\<rparr>"

definition between_10_3 :: Filters where
  "between_10_3 = noRestriction\<lparr>staffFilter := \<lparr>operator = OpBetween, value1 = 10, value2 = Some 3\<rparr>\<rparr>"

section \<open>Properties of the filter engine\<close>

lemma applyStaffFilter_spec:
  "applyStaffFilter v flt = spec_numeric_ok (operator flt) (value1 flt) (value2 flt) v"
  by (cases "operator flt"; cases "value2 flt") auto

lemma generateMockData_loop_filter:
  "generateMockData_loop f drawn pushed = pushed @ filter (spec_retained f) drawn"
  by (induction drawn arbitrary: pushed)
     (auto simp: spec_retained_def spec_dimension_ok_def array_includes_def applyStaffFilter_spec
           simp del: applyStaffFilter.simps)

lemma generateMockData_filter:
  "generateMockData drawn f = filter (spec_retained f) drawn"
  by (simp add: generateMockData_def generateMockData_loop_filter)

text \<open>
  C3. The filter engine keeps a record exactly when every categorical dimension with a
  non-empty inclusion set contains the record's value and the staff count satisfies the
  numeric filter; the result is the order-preserving subsequence of such records, and the
  engine is a total function returning a list (nothing is raised for a rejected record).
\<close>

theorem filter_engine_retains_iff:
  "generateMockData drawn f = filter (spec_retained f) drawn \<and>
   (c \<in> set (generateMockData drawn f) \<longleftrightarrow> c \<in> set drawn \<and> spec_retained f c)"
  by (simp add: generateMockData_filter)

theorem filter_engine_retains_iff_witness:
  "generateMockData [doctor5, doctor15, nurse8] doctorsOnly
     = filter (spec_retained doctorsOnly) [doctor5, doctor15, nurse8] \<and>
   generateMockData [doctor5, doctor15, nurse8] doctorsOnly = [doctor5, doctor15] \<and>
   (nurse8 \<in> set (generateMockData [doctor5, doctor15, nurse8] doctorsOnly)
      \<longleftrightarrow> nurse8 \<in> set [doctor5, doctor15, nurse8] \<and> spec_retained doctorsOnly nurse8) \<and>
   \<not> spec_retained doctorsOnly nurse8"
  using filter_engine_retains_iff [of "[doctor5, doctor15, nurse8]" doctorsOnly nurse8]
  by (simp add: spec_retained_def spec_dimension_ok_def doctorsOnly_def noRestriction_def
        doctor5_def doctor15_def nurse8_def)

text \<open>
  C4. Under \<^verbatim>\<open>between\<close> with both thresholds a staff count matches exactly when it lies
  in the closed interval (5 and 10 match for thresholds 5 and 10, 4 and 11 do not); without
  the second threshold it matches exactly when it is at least the first.
\<close>

theorem between_inclusive_bounds:
  "applyStaffFilter v \<lparr>operator = OpBetween, value1 = t1, value2 = Some t2\<rparr> = (t1 \<le> v \<and> v \<le> t2) \<and>
   applyStaffFilter 5 \<lparr>operator = OpBetween, value1 = 5, value2 = Some 10\<rparr> \<and>
   applyStaffFilter 10 \<lparr>operator = OpBetween, value1 = 5, value2 = Some 10\<rparr> \<and>
   \<not> applyStaffFilter 4 \<lparr>operator = OpBetween, value1 = 5, value2 = Some 10\<rparr> \<and>
   \<not> applyStaffFilter 11 \<lparr>operator = OpBetween, value1 = 5, value2 = Some 10\<rparr> \<and>
   applyStaffFilter v \<lparr>operator = OpBetween, value1 = t1, value2 = None\<rparr> = (t1 \<le> v)"
  by simp

text \<open>
  C7. With every inclusion set empty and the numeric filter \<^verbatim>\<open>gte 0\<close>, the filter
  engine returns the records unchanged, provided every staff count is at least 0.
\<close>

theorem filter_identity:
  assumes "professions f = []" and "countries f = []" and "memberships f = []"
    and "operator (staffFilter f) = OpGte" and "value1 (staffFilter f) = 0"
    and "\<forall>c \<in> set records. staffCount c \<ge> 0"
  shows "generateMockData records f = records"
  using assms
  by (simp add: generateMockData_filter spec_retained_def spec_dimension_ok_def filter_id_conv)

theorem filter_identity_witness:
  "professions noRestriction = [] \<and> countries noRestriction = [] \<and> memberships noRestriction = [] \<and>
   operator (staffFilter noRestriction) = OpGte \<and> value1 (staffFilter noRestriction) = 0 \<and>
   staffCount doctor5 \<ge> 0 \<and> staffCount doctor15 \<ge> 0 \<and> staffCount nurse8 \<ge> 0 \<and>
   generateMockData [doctor5, doctor15, nurse8] noRestriction = [doctor5, doctor15, nurse8]"
proof -
  have s: "staffCount doctor5 \<ge> 0 \<and> staffCount doctor15 \<ge> 0 \<and> staffCount nurse8 \<ge> 0"
    by (simp add: doctor5_def doctor15_def nurse8_def)
  then have h: "\<forall>c \<in> set [doctor5, doctor15, nurse8]. staffCount c \<ge> 0"
    by simp
  have "generateMockData [doctor5, doctor15, nurse8] noRestriction = [doctor5, doctor15, nurse8]"
    by (rule filter_identity [OF _ _ _ _ _ h]) (simp_all add: noRestriction_def)
  with s show ?thesis by (simp add: noRestriction_def)
qed

text \<open>
  C9. A \<^verbatim>\<open>between\<close> filter whose second threshold is present and below the first is
  evaluated without failure (the predicate is a total boolean function) and matches no
  staff count, so the filter engine returns the empty list.
\<close>

theorem between_inverted_matches_nothing:
  assumes "operator (staffFilter f) = OpBetween" and "value2 (staffFilter f) = Some t2"
    and "t2 < value1 (staffFilter f)"
  shows "\<not> applyStaffFilter v (staffFilter f) \<and> generateMockData records f = []"
proof -
  have "\<not> applyStaffFilter v (staffFilter f)" for v
    using assms by simp
  then show ?thesis
    by (simp add: generateMockData_filter spec_retained_def flip: applyStaffFilter_spec
          del: applyStaffFilter.simps)
qed

theorem between_inverted_matches_nothing_witness:
  "operator (staffFilter between_10_3) = OpBetween \<and> value2 (staffFilter between_10_3) = Some 3 \<and>
   3 < value1 (staffFilter between_10_3) \<and>
   \<not> applyStaffFilter 5 (staffFilter between_10_3) \<and>
   generateMockData [doctor5, doctor15, nurse8] between_10_3 = []"
proof -
  have a: "operator (staffFilter between_10_3) = OpBetween"
    and b: "value2 (staffFilter between_10_3) = Some 3"
    and c: "3 < value1 (staffFilter between_10_3)"
    by (simp_all add: between_10_3_def noRestriction_def)
  from between_inverted_matches_nothing [OF a b c, of 5 "[doctor5, doctor15, nurse8]"] a b c
  show ?thesis by blast
qed

section \<open>Properties of the aggregator\<close>

subsection \<open>Grouping and sorting in closed form\<close>

lemma d3_group_snoc:
  "d3_group (xs @ [x]) keyof = group_push (keyof x) x (d3_group xs keyof)"
  by (simp add: d3_group_def)

lemma set_first_occurrences: "set (first_occurrences xs) = set xs"
  by (induction xs) auto

lemma distinct_first_occurrences: "distinct (first_occurrences xs)"
  by (induction xs) (auto simp: set_first_occurrences)

lemma first_occurrences_snoc:
  "first_occurrences (xs @ [x]) =
     (if x \<in> set xs then first_occurrences xs else first_occurrences xs @ [x])"
  by (induction xs) auto

lemma group_push_map:
  "distinct ks \<Longrightarrow>
   group_push k v (map (\<lambda>k'. (k', F k')) ks) =
     (if k \<in> set ks then map (\<lambda>k'. (k', if k' = k then F k' @ [v] else F k')) ks
      else map (\<lambda>k'. (k', F k')) ks @ [(k, [v])])"
  by (induction ks) auto

lemma d3_group_eq:
  "d3_group xs keyof =
     map (\<lambda>k. (k, filter (\<lambda>v. keyof v = k) xs)) (first_occurrences (map keyof xs))"
proof (induction xs rule: rev_induct)
  case Nil
  show ?case by (simp add: d3_group_def)
next
  case (snoc x xs)
  let ?ks = "first_occurrences (map keyof xs)"
  have d: "distinct ?ks" by (rule distinct_first_occurrences)
  have s: "set ?ks = keyof ` set xs" by (simp add: set_first_occurrences)
  show ?case
  proof (cases "keyof x \<in> keyof ` set xs")
    case True
    then show ?thesis
      using s by (simp add: d3_group_snoc snoc.IH group_push_map[OF d] first_occurrences_snoc)
  next
    case False
    then have "filter (\<lambda>v. keyof v = keyof x) xs = []"
      unfolding filter_empty_conv by (metis imageI)
    with False show ?thesis
      using s by (auto simp add: d3_group_snoc snoc.IH group_push_map[OF d] first_occurrences_snoc)
  qed
qed

lemma insort_cmp_key:
  fixes f :: "'a \<Rightarrow> int"
  shows "insort_cmp (\<lambda>a b. f b - f a) x ys = insort_key (\<lambda>r. - f r) x ys"
  by (induction ys) auto

lemma array_sort_key:
  fixes f :: "'a \<Rightarrow> int"
  shows "array_sort (\<lambda>a b. f b - f a) xs = sort_key (\<lambda>r. - f r) xs"
  by (induction xs) (simp_all add: array_sort_def insort_cmp_key)

lemma chartData_eq:
  "chartData vm cs =
     sort_key (\<lambda>r. - accounts r)
       (map (\<lambda>k. chartRow (k, filter (\<lambda>c. viewKey vm c = k) cs))
          (first_occurrences (map (viewKey vm) cs)))"
  by (simp add: chartData_def array_sort_key d3_group_eq o_def)


lemma foldl_add_sum_list:
  fixes a :: int
  shows "foldl (\<lambda>sum c. sum + f c) a xs = a + sum_list (map f xs)"
  by (induction xs arbitrary: a) simp_all

lemma chartRow_simps:
  "category (chartRow (k, g)) = k"
  "customers (chartRow (k, g)) = g"
  "accounts (chartRow (k, g)) = int (length g)"
  "appointments (chartRow (k, g)) = sum_list (map monthlyAppointmentCount g)"
  "bayesianNormal (chartRow (k, g)) =
     calculateBayesianNormal (sum_list (map monthlyAppointmentCount g)) (int (length g))"
  by (simp_all add: chartRow_def Let_def foldl_add_sum_list)

lemma set_chartData:
  "set (chartData vm cs) =
     (\<lambda>k. chartRow (k, filter (\<lambda>c. viewKey vm c = k) cs)) ` viewKey vm ` set cs"
  by (simp add: chartData_eq set_first_occurrences)

lemma mset_concat_groups:
  "distinct ks \<Longrightarrow>
   mset (concat (map (\<lambda>k. filter (\<lambda>c. key c = k) cs) ks)) =
     filter_mset (\<lambda>c. key c \<in> set ks) (mset cs)"
proof (induction ks)
  case Nil
  show ?case by simp
next
  case (Cons k ks)
  have "filter_mset (\<lambda>c. key c = k) (mset cs) + filter_mset (\<lambda>c. key c \<in> set ks) (mset cs) =
        filter_mset (\<lambda>c. key c \<in> set (k # ks)) (mset cs)"
    using Cons.prems by (intro multiset_eqI) auto
  with Cons show ?case by simp
qed

lemma mset_concat_sort_key:
  "mset (concat (map g (sort_key f xs))) = mset (concat (map g xs))"
proof -
  have "mset (concat (map g ys)) = sum_mset (image_mset (\<lambda>y. mset (g y)) (mset ys))" for ys
    by (induction ys) simp_all
  then show ?thesis by simp
qed

lemma chartData_members:
  "mset (concat (map customers (chartData vm cs))) = mset cs"
proof -
  let ?ks = "first_occurrences (map (viewKey vm) cs)"
  have "mset (concat (map customers (chartData vm cs))) =
        mset (concat (map (\<lambda>k. filter (\<lambda>c. viewKey vm c = k) cs) ?ks))"
    by (simp add: chartData_eq mset_concat_sort_key o_def chartRow_simps)
  also have "\<dots> = filter_mset (\<lambda>c. viewKey vm c \<in> set ?ks) (mset cs)"
    by (rule mset_concat_groups) (rule distinct_first_occurrences)
  also have "\<dots> = mset cs"
    by (simp add: set_first_occurrences filter_mset_eq_conv)
  finally show ?thesis .
qed

lemma chartData_accounts:
  assumes "r \<in> set (chartData vm cs)"
  shows "accounts r = int (length (customers r))" and "accounts r \<ge> 1"
proof -
  from assms obtain c where c: "c \<in> set cs"
    and r: "r = chartRow (viewKey vm c, filter (\<lambda>d. viewKey vm d = viewKey vm c) cs)"
    by (auto simp: set_chartData)
  show "accounts r = int (length (customers r))"
    by (simp add: r chartRow_simps)
  from c have "c \<in> set (filter (\<lambda>d. viewKey vm d = viewKey vm c) cs)" by simp
  then have "length (filter (\<lambda>d. viewKey vm d = viewKey vm c) cs) > 0"
    by (rule length_pos_if_in_set)
  then have "1 \<le> int (length (filter (\<lambda>d. viewKey vm d = viewKey vm c) cs))"
    by linarith
  then show "accounts r \<ge> 1"
    by (simp only: r chartRow_simps)
qed

lemma of_nat_sum_list: "int (sum_list ns) = sum_list (map int ns)"
  by (induction ns) simp_all

lemma chartData_accounts_sum:
  "sum_list (map accounts (chartData vm cs)) = int (length cs)"
proof -
  have "map accounts (chartData vm cs) = map (\<lambda>r. int (length (customers r))) (chartData vm cs)"
    by (rule map_cong[OF refl]) (rule chartData_accounts)
  then have "sum_list (map accounts (chartData vm cs)) =
        sum_list (map (\<lambda>r. int (length (customers r))) (chartData vm cs))"
    by (rule arg_cong)
  also have "\<dots> = int (length (concat (map customers (chartData vm cs))))"
    by (simp add: length_concat o_def of_nat_sum_list)
  also have "\<dots> = int (size (mset (concat (map customers (chartData vm cs)))))"
    by simp
  also have "\<dots> = int (length cs)"
    by (simp only: chartData_members size_mset)
  finally show ?thesis .
qed

lemma chartData_unique_row:
  assumes "c \<in> set cs"
  shows "\<exists>!r. r \<in> set (chartData vm cs) \<and> c \<in> set (customers r)"
proof
  let ?r = "chartRow (viewKey vm c, filter (\<lambda>d. viewKey vm d = viewKey vm c) cs)"
  from assms show "?r \<in> set (chartData vm cs) \<and> c \<in> set (customers ?r)"
    by (auto simp: set_chartData chartRow_simps)
  fix r assume "r \<in> set (chartData vm cs) \<and> c \<in> set (customers r)"
  then show "r = ?r"
    by (auto simp: set_chartData chartRow_simps)
qed

subsection \<open>Order of the rows\<close>

lemma sorted_desc_chartData:
  "sorted_wrt (\<lambda>a b. accounts a \<ge> accounts b) (chartData vm cs)"
proof -
  have "sorted (map (\<lambda>r. - accounts r) (chartData vm cs))"
    unfolding chartData_eq by (rule sorted_sort_key)
  then show ?thesis
    by (simp add: sorted_wrt_map)
qed

lemma chartData_ties:
  "map category (filter (\<lambda>r. accounts r = n) (chartData vm cs)) =
     filter (\<lambda>k. int (length (filter (\<lambda>c. viewKey vm c = k) cs)) = n)
       (first_occurrences (map (viewKey vm) cs))"
proof -
  have "filter (\<lambda>r. accounts r = n) (chartData vm cs) =
        filter (\<lambda>r. - accounts r = - n) (chartData vm cs)"
    by simp
  also have "\<dots> = filter (\<lambda>r. - accounts r = - n)
       (map (\<lambda>k. chartRow (k, filter (\<lambda>c. viewKey vm c = k) cs))
          (first_occurrences (map (viewKey vm) cs)))"
    unfolding chartData_eq by (rule sort_key_stable)
  finally show ?thesis
    by (simp add: filter_map o_def chartRow_simps)
qed

lemma row_summary_chartRow:
  "row_summary (chartRow (k, filter (\<lambda>c. viewKey vm c = k) cs)) = summary_of vm (mset cs) k"
proof -
  have "sum_list (map monthlyAppointmentCount (filter (\<lambda>c. viewKey vm c = k) cs)) =
        sum_mset (image_mset monthlyAppointmentCount (filter_mset (\<lambda>c. viewKey vm c = k) (mset cs)))"
    by (metis mset_filter mset_map sum_mset_sum_list)
  moreover have "length (filter (\<lambda>c. viewKey vm c = k) cs) =
        size (filter_mset (\<lambda>c. viewKey vm c = k) (mset cs))"
    by (metis mset_filter size_mset)
  ultimately show ?thesis
    by (simp add: row_summary_def chartRow_simps summary_of_def Let_def)
qed

lemma mset_row_summaries:
  "mset (map row_summary (chartData vm cs)) =
     image_mset (summary_of vm (mset cs)) (mset_set (viewKey vm ` set_mset (mset cs)))"
proof -
  let ?ks = "first_occurrences (map (viewKey vm) cs)"
  have "mset ?ks = mset_set (set ?ks)"
    by (simp add: mset_set_set distinct_first_occurrences)
  then have ks: "mset ?ks = mset_set (viewKey vm ` set cs)"
    by (simp add: set_first_occurrences)
  have "mset (map row_summary (chartData vm cs)) =
        image_mset row_summary (mset (chartData vm cs))"
    by simp
  also have "\<dots> = image_mset (summary_of vm (mset cs)) (mset ?ks)"
    by (simp add: chartData_eq multiset.map_comp o_def row_summary_chartRow)
  finally show ?thesis
    by (simp add: ks)
qed

lemma sorted_mset_unique:
  fixes xs ys :: "'a::linorder list"
  assumes "mset xs = mset ys" "sorted xs" "sorted ys"
  shows "xs = ys"
  using assms by (metis properties_for_sort)

lemma keyed_lists_equal:
  assumes m: "mset xs = mset ys" and k: "map g xs = map g ys" and d: "distinct (map g xs)"
  shows "xs = ys"
proof (rule nth_equalityI)
  show len: "length xs = length ys"
    using m by (metis size_mset)
  fix i assume i: "i < length xs"
  have inj: "inj_on g (set xs)"
    using d by (simp add: distinct_map)
  have "g (xs ! i) = g (ys ! i)"
    using k i len by (metis nth_map)
  moreover have "ys ! i \<in> set xs"
    using m i len by (metis nth_mem set_mset_mset)
  moreover have "xs ! i \<in> set xs"
    using i by simp
  ultimately show "xs ! i = ys ! i"
    using inj by (simp add: inj_on_def)
qed

lemma permutation_invariance:
  assumes "mset cs = mset cs'"
  shows "mset (map row_summary (chartData vm cs)) = mset (map row_summary (chartData vm cs'))"
    and "map accounts (chartData vm cs) = map accounts (chartData vm cs')"
    and "distinct (map accounts (chartData vm cs)) \<Longrightarrow>
         map row_summary (chartData vm cs) = map row_summary (chartData vm cs')"
proof -
  show m: "mset (map row_summary (chartData vm cs)) = mset (map row_summary (chartData vm cs'))"
    by (simp only: mset_row_summaries assms)
  have acc: "accounts r = fst (snd (row_summary r))" for r
    by (simp add: row_summary_def)
  have "mset (map (\<lambda>r. - accounts r) (chartData vm cs)) =
        image_mset (\<lambda>s. - fst (snd s)) (mset (map row_summary (chartData vm cs)))" for cs
    by (simp add: multiset.map_comp o_def acc)
  then have meq: "mset (map (\<lambda>r. - accounts r) (chartData vm cs)) =
        mset (map (\<lambda>r. - accounts r) (chartData vm cs'))"
    by (simp only: m)
  have srt: "sorted (map (\<lambda>r. - accounts r) (chartData vm cs))" for cs
    unfolding chartData_eq by (rule sorted_sort_key)
  have neg: "map (\<lambda>r. - accounts r) (chartData vm cs) =
        map (\<lambda>r. - accounts r) (chartData vm cs')"
    by (rule sorted_mset_unique[OF meq srt srt])
  have "map accounts (chartData vm cs) = map uminus (map (\<lambda>r. - accounts r) (chartData vm cs))" for cs
    by (simp add: o_def)
  then show a: "map accounts (chartData vm cs) = map accounts (chartData vm cs')"
    by (simp only: neg)
  assume d: "distinct (map accounts (chartData vm cs))"
  show "map row_summary (chartData vm cs) = map row_summary (chartData vm cs')"
  proof (rule keyed_lists_equal[where g = "\<lambda>s. fst (snd s)"])
    show "mset (map row_summary (chartData vm cs)) = mset (map row_summary (chartData vm cs'))"
      by (rule m)
    show "map (\<lambda>s. fst (snd s)) (map row_summary (chartData vm cs)) =
          map (\<lambda>s. fst (snd s)) (map row_summary (chartData vm cs'))"
      using a by (simp add: o_def row_summary_def)
    show "distinct (map (\<lambda>s. fst (snd s)) (map row_summary (chartData vm cs)))"
      using d by (simp add: o_def row_summary_def)
  qed
qed

subsection \<open>Claims about the aggregate rows\<close>

text \<open>
  C8. Aggregating the empty record list gives the empty sequence of rows, for every
  grouping dimension; the early return of \<^verbatim>\<open>chartData\<close> is a value, not a failure.
\<close>

theorem aggregate_empty: "chartData viewMode [] = []"
  by (simp add: chartData_def)

text \<open>
  C10. The rows partition the input: the member lists together hold every input record
  exactly as often as the input does, every input record lies in the member list of exactly
  one row, every row's member count is the length of its member list and at least 1, and
  the member counts add up to the number of input records. (The statement needs no
  non-emptiness: on the empty list there is no row.)
\<close>

theorem aggregate_partitions_input:
  "mset (concat (map customers (chartData vm cs))) = mset cs \<and>
   (\<forall>c \<in> set cs. \<exists>!r. r \<in> set (chartData vm cs) \<and> c \<in> set (customers r)) \<and>
   (\<forall>r \<in> set (chartData vm cs). accounts r = int (length (customers r)) \<and> accounts r \<ge> 1) \<and>
   sum_list (map accounts (chartData vm cs)) = int (length cs)"
  using chartData_members chartData_unique_row chartData_accounts chartData_accounts_sum
  by blast

theorem aggregate_partitions_input_witness:
  "[doctor5, doctor15, nurse8] \<noteq> [] \<and>
   map customers (chartData Profession [doctor5, doctor15, nurse8]) = [[doctor5, doctor15], [nurse8]] \<and>
   mset (concat (map customers (chartData Profession [doctor5, doctor15, nurse8])))
      = mset [doctor5, doctor15, nurse8] \<and>
   (\<exists>!r. r \<in> set (chartData Profession [doctor5, doctor15, nurse8]) \<and> nurse8 \<in> set (customers r)) \<and>
   accounts (hd (chartData Profession [doctor5, doctor15, nurse8])) =
     int (length (customers (hd (chartData Profession [doctor5, doctor15, nurse8])))) \<and>
   accounts (hd (chartData Profession [doctor5, doctor15, nurse8])) \<ge> 1 \<and>
   sum_list (map accounts (chartData Profession [doctor5, doctor15, nurse8])) = 3"
proof -
  let ?cs = "[doctor5, doctor15, nurse8]"
  have ev: "map customers (chartData Profession ?cs) = [[doctor5, doctor15], [nurse8]]"
    by (simp add: chartData_def d3_group_def array_sort_def chartRow_def
          doctor5_def doctor15_def nurse8_def)
  then have "chartData Profession ?cs \<noteq> []"
    by auto
  then have mem: "hd (chartData Profession ?cs) \<in> set (chartData Profession ?cs)"
    by (rule hd_in_set)
  have n: "nurse8 \<in> set ?cs"
    by simp
  note th = aggregate_partitions_input [of Profession ?cs]
  from th have a: "mset (concat (map customers (chartData Profession ?cs))) = mset ?cs"
    by (rule conjunct1)
  from th n have b: "\<exists>!r. r \<in> set (chartData Profession ?cs) \<and> nurse8 \<in> set (customers r)"
    by blast
  from th mem have c: "accounts (hd (chartData Profession ?cs)) =
      int (length (customers (hd (chartData Profession ?cs)))) \<and>
      accounts (hd (chartData Profession ?cs)) \<ge> 1"
    by blast
  from th have d: "sum_list (map accounts (chartData Profession ?cs)) = 3"
    by simp
  from ev a b c d show ?thesis
    by simp
qed

text \<open>
  C1, as the code has it. The score of every row is its summed volume plus the prior 20,
  divided by its member count plus the prior count 5: the prior enters once, not
  multiplied by the prior count. A group of 5 members with summed volume 100 scores
  (100 + 20) / (5 + 5) = 12.
\<close>

theorem smoothed_score_formula:
  "(\<forall>r \<in> set (chartData vm cs).
      bayesianNormal r = (of_int (appointments r) + 20) / (of_int (accounts r) + 5)) \<and>
   calculateBayesianNormal 100 5 = 12"
  by (auto simp: set_chartData chartRow_simps calculateBayesianNormal_def)

theorem smoothed_score_formula_witness:
  "map row_summary (chartData Profession fiveDoctors) = [(''Doctor'', 5, 100, 12)] \<and>
   hd (chartData Profession fiveDoctors) \<in> set (chartData Profession fiveDoctors) \<and>
   bayesianNormal (hd (chartData Profession fiveDoctors)) =
     (of_int (appointments (hd (chartData Profession fiveDoctors))) + 20) /
     (of_int (accounts (hd (chartData Profession fiveDoctors))) + 5)"
proof -
  have ev: "map row_summary (chartData Profession fiveDoctors) = [(''Doctor'', 5, 100, 12)]"
    by (simp add: chartData_def d3_group_def array_sort_def chartRow_def row_summary_def
          calculateBayesianNormal_def fiveDoctors_def doctorWith_def doctor5_def)
  then have "chartData Profession fiveDoctors \<noteq> []"
    by auto
  then have mem: "hd (chartData Profession fiveDoctors) \<in> set (chartData Profession fiveDoctors)"
    by (rule hd_in_set)
  with smoothed_score_formula [of Profession fiveDoctors]
  have "bayesianNormal (hd (chartData Profession fiveDoctors)) =
     (of_int (appointments (hd (chartData Profession fiveDoctors))) + 20) /
     (of_int (accounts (hd (chartData Profession fiveDoctors))) + 5)"
    by blast
  with ev mem show ?thesis by blast
qed

text \<open>
  The claim C1 as stated fails: the five-member group with summed volume 100 scores 12,
  while the stated formula (100 + 20 * 5) / (5 + 5) gives 20.
\<close>

theorem smoothed_score_spec_counterexample:
  "map row_summary (chartData Profession fiveDoctors) = [(''Doctor'', 5, 100, 12)] \<and>
   spec_smoothedScore 100 5 = 20 \<and>
   map row_summary (chartData Profession fiveDoctors)
     \<noteq> [(''Doctor'', 5, 100, spec_smoothedScore 100 5)]"
  by (simp add: chartData_def d3_group_def array_sort_def chartRow_def row_summary_def
        calculateBayesianNormal_def spec_smoothedScore_def fiveDoctors_def doctorWith_def doctor5_def)

text \<open>
  C2, as the code has it. Filtering the three records to the doctors and aggregating by
  profession gives exactly one row: category Doctor, 2 members, summed volume 100, score
  (100 + 20) / (2 + 5) = 120 / 7, members the two doctors in input order. The row stores
  no rate; the quotient of its summed volume by its member count is 50.
\<close>

theorem end_to_end_doctors:
  "chartData Profession (generateMockData [doctor5, doctor15, nurse8] doctorsOnly) =
     [\<lparr>category = ''Doctor'', appointments = 100, accounts = 2,
       bayesianNormal = 120 / 7, customers = [doctor5, doctor15]\<rparr>] \<and>
   map row_summary (chartData Profession (generateMockData [doctor5, doctor15, nurse8] doctorsOnly)) =
     [(''Doctor'', 2, 100, (100 + 20) / (2 + 5))] \<and>
   map (\<lambda>r. real_of_int (appointments r) / real_of_int (accounts r))
     (chartData Profession (generateMockData [doctor5, doctor15, nurse8] doctorsOnly)) = [50]"
  by (simp add: generateMockData_def array_includes_def doctorsOnly_def noRestriction_def
        chartData_def d3_group_def array_sort_def chartRow_def row_summary_def
        calculateBayesianNormal_def doctor5_def doctor15_def nurse8_def)

text \<open>
  The claim C2 as stated fails on the score: the row does not carry
  (100 + 100) / (2 + 5).
\<close>

theorem end_to_end_doctors_counterexample:
  "map row_summary (chartData Profession (generateMockData [doctor5, doctor15, nurse8] doctorsOnly))
     \<noteq> [(''Doctor'', 2, 100, (100 + 100) / (2 + 5))]"
  by (simp add: generateMockData_def array_includes_def doctorsOnly_def noRestriction_def
        chartData_def d3_group_def array_sort_def chartRow_def row_summary_def
        calculateBayesianNormal_def doctor5_def doctor15_def nurse8_def)

text \<open>
  C5, as the code has it. The rows are sorted by descending member count, and the
  comparator looks at nothing else: rows with the same member count stand in the order in
  which their categories first occur in the input.
\<close>

theorem aggregate_sorted_by_count:
  "sorted_wrt (\<lambda>a b. accounts a \<ge> accounts b) (chartData vm cs) \<and>
   map category (filter (\<lambda>r. accounts r = n) (chartData vm cs)) =
     filter (\<lambda>k. int (length (filter (\<lambda>c. viewKey vm c = k) cs)) = n)
       (first_occurrences (map (viewKey vm) cs))"
  using sorted_desc_chartData chartData_ties by blast

theorem aggregate_sorted_by_count_witness:
  "map row_summary (chartData Profession [nurse8, doctor5, doctor15]) =
     [(''Doctor'', 2, 100, 120 / 7), (''Nurse'', 1, 30, 25 / 3)] \<and>
   (sorted_wrt (\<lambda>a b. accounts a \<ge> accounts b) (chartData Profession [nurse8, doctor5, doctor15]) \<and>
    map category (filter (\<lambda>r. accounts r = 2) (chartData Profession [nurse8, doctor5, doctor15])) =
      filter (\<lambda>k. int (length (filter (\<lambda>c. viewKey Profession c = k) [nurse8, doctor5, doctor15])) = 2)
        (first_occurrences (map (viewKey Profession) [nurse8, doctor5, doctor15])))"
proof -
  have ev: "map row_summary (chartData Profession [nurse8, doctor5, doctor15]) =
     [(''Doctor'', 2, 100, 120 / 7), (''Nurse'', 1, 30, 25 / 3)]"
    by (simp add: chartData_def d3_group_def array_sort_def chartRow_def row_summary_def
          calculateBayesianNormal_def doctor5_def doctor15_def nurse8_def)
  from ev aggregate_sorted_by_count [of Profession "[nurse8, doctor5, doctor15]" 2]
  show ?thesis by (rule conjI)
qed

text \<open>
  The claim C5 as stated fails on the tie-break: a nurse followed by a doctor gives two
  rows of one member each, Nurse before Doctor, which is not ascending by label.
\<close>

theorem aggregate_tie_break_counterexample:
  "map category (chartData Profession [nurse8, doctor5]) = [''Nurse'', ''Doctor''] \<and>
   \<not> sorted_wrt spec_row_before (chartData Profession [nurse8, doctor5])"
  by (simp add: chartData_def d3_group_def array_sort_def chartRow_def spec_row_before_def
        nurse8_def doctor5_def)

text \<open>
  C6, as the code has it. A permutation of the records leaves the multiset of rows
  (category, member count, summed volume, score) and the sequence of member counts
  unchanged; when no two rows have the same member count, the rows come in the same order.
\<close>

theorem aggregate_permutation:
  assumes "mset cs = mset cs'"
  shows "mset (map row_summary (chartData vm cs)) = mset (map row_summary (chartData vm cs')) \<and>
         map accounts (chartData vm cs) = map accounts (chartData vm cs') \<and>
         (distinct (map accounts (chartData vm cs)) \<longrightarrow>
            map row_summary (chartData vm cs) = map row_summary (chartData vm cs'))"
  using permutation_invariance [OF assms] by blast

theorem aggregate_permutation_witness:
  "mset [doctor5, doctor15, nurse8] = mset [nurse8, doctor15, doctor5] \<and>
   distinct (map accounts (chartData Profession [doctor5, doctor15, nurse8])) \<and>
   map row_summary (chartData Profession [doctor5, doctor15, nurse8]) =
     map row_summary (chartData Profession [nurse8, doctor15, doctor5])"
proof -
  have h: "mset [doctor5, doctor15, nurse8] = mset [nurse8, doctor15, doctor5]"
    by (simp add: add_mset_commute)
  have d: "distinct (map accounts (chartData Profession [doctor5, doctor15, nurse8]))"
    by (simp add: chartData_def d3_group_def array_sort_def chartRow_def
          doctor5_def doctor15_def nurse8_def)
  from aggregate_permutation [OF h, of Profession] d
  have "map row_summary (chartData Profession [doctor5, doctor15, nurse8]) =
     map row_summary (chartData Profession [nurse8, doctor15, doctor5])"
    by blast
  with h d show ?thesis by blast
qed

text \<open>
  The claim C6 as stated fails: the nurse and the doctor in either order are the same
  multiset of records, and the two rows come out in different orders.
\<close>

theorem aggregate_permutation_counterexample:
  "mset [nurse8, doctor5] = mset [doctor5, nurse8] \<and>
   map category (chartData Profession [nurse8, doctor5]) = [''Nurse'', ''Doctor''] \<and>
   map category (chartData Profession [doctor5, nurse8]) = [''Doctor'', ''Nurse''] \<and>
   chartData Profession [nurse8, doctor5] \<noteq> chartData Profession [doctor5, nurse8]"
  by (simp add: add_mset_commute chartData_def d3_group_def array_sort_def chartRow_def
        nurse8_def doctor5_def)

end
